theory Spec2Isabelle
  imports Complex_Main "HOL-Library.Sublist" "HOL-Library.Multiset"
begin

section \<open>Strings and numbers of the host language\<close>

text \<open>
  The workflow is TypeScript. Its strings are modelled as \<^typ>\<open>string\<close>, read as the
  bytes of the UTF-8 encoding of the source text: the degree sign of the weather summary
  is the two bytes \<open>0xC2 0xB0\<close>, the pictographs in front of the activity names are the
  byte sequences of their code points. Every test the program makes on a string
  (\<open>includes\<close> of an ASCII keyword, the digit pattern) sees ASCII characters only, and an
  ASCII character is never part of the encoding of another one.

  Its numbers are binary floating-point numbers. Each finite one is a rational, and the
  program only compares them with integer constants, so temperature, humidity and
  coordinates are modelled as \<^typ>\<open>rat\<close>; the weather code and the score, which
  only take integer values, are \<^typ>\<open>int\<close>. Not-a-number and the two
  infinities are outside the model; the scorer never meets the first, since \<open>parseFloat\<close>
  of a text that starts with a digit or with a minus sign and a digit is a number. The two conversions between numbers
  and decimal text are parameters of the functions that use them: \<open>numberToString\<close>, the
  text of a number in a template literal, and \<open>toDouble\<close>, the floating-point number
  nearest to the value of a decimal numeral. The theorems quantify over both.
\<close>

definition toLowerCaseChar :: "char \<Rightarrow> char" where
  "toLowerCaseChar c =
     (case map_of (zip ''ABCDEFGHIJKLMNOPQRSTUVWXYZ'' ''abcdefghijklmnopqrstuvwxyz'') c of
        Some l \<Rightarrow> l
      | None \<Rightarrow> c)"

text \<open>
  \<open>String.prototype.toLowerCase\<close>. The model lowers the ASCII letters and leaves every
  other byte as it is. The language also lowers letters outside ASCII, to characters
  outside ASCII again, but for two: the Kelvin sign becomes \<open>k\<close>, and the dotted capital I
  becomes \<open>i\<close> followed by a combining dot. None of the keywords the program looks for
  (\<open>rain\<close>, \<open>clear\<close>, \<open>sunny\<close>, \<open>cloud\<close>) has a \<open>k\<close>, or an \<open>i\<close> followed by a
  non-ASCII character, so every \<open>includes\<close> of the program has the same answer on the
  model's string as on the language's.
\<close>

definition toLowerCase :: "string \<Rightarrow> string" where
  "toLowerCase s = map toLowerCaseChar s"

text \<open>\<open>s.includes(k)\<close>: \<open>k\<close> occurs in \<open>s\<close> as a contiguous run.\<close>

fun str_includes :: "string \<Rightarrow> string \<Rightarrow> bool" where
  "str_includes [] k = (k = [])"
| "str_includes (c # s) k = (prefix k (c # s) \<or> str_includes s k)"

section \<open>Condition decoder\<close>

text \<open>The object literal \<open>conditions\<close> of \<open>getWeatherCondition\<close>, in source order.\<close>

definition conditions :: "(int \<times> string) list" where
  "conditions =
     [(0, ''Clear sky''),
      (1, ''Mainly clear''),
      (2, ''Partly cloudy''),
      (3, ''Overcast''),
      (45, ''Foggy''),
      (51, ''Light drizzle''),
      (61, ''Slight rain''),
      (63, ''Moderate rain''),
      (65, ''Heavy rain''),
      (71, ''Slight snow''),
      (95, ''Thunderstorm'')]"

text \<open>
  \<open>conditions[code] || 'Unknown'\<close>: a missing key reads as \<open>undefined\<close>, and \<open>||\<close> takes
  its right operand for \<open>undefined\<close> and for the empty string.
\<close>

definition getWeatherCondition :: "int \<Rightarrow> string" where
  "getWeatherCondition code =
     (case map_of conditions code of
        None \<Rightarrow> ''Unknown''
      | Some label \<Rightarrow> if label = [] then ''Unknown'' else label)"

section \<open>Records\<close>

text \<open>\<open>cityWeatherSchema\<close>.\<close>

record CityWeather =
  city :: string
  temperature :: rat
  condition :: string
  humidity :: rat

text \<open>\<open>activitySchema\<close>.\<close>

record ActivityRecommendation =
  city :: string
  activities :: "string list"
  weatherSummary :: string

text \<open>An element of \<open>allCities\<close> in the output schema of \<open>findBestDestination\<close>.\<close>

record ScoredCity =
  city :: string
  score :: int
  weatherSummary :: string
  topActivity :: string

text \<open>The output schema of \<open>findBestDestination\<close>.\<close>

record BestDestinationReport =
  bestCity :: string
  reason :: string
  allCities :: "ScoredCity list"

section \<open>Fetching the weather of one city\<close>

text \<open>
  The two services are parameters of the step: a function from the request to either a
  fault (the \<open>fetch\<close> or the \<open>json()\<close> promise rejects) or the decoded body. The step returns
  the list of the requests it has sent, in order, next to its result.
\<close>

datatype fault = TransportFault | ParseFault

datatype request = GeocodingRequest string nat | ForecastRequest rat rat

record location =
  latitude :: rat
  longitude :: rat
  name :: string

record geocodingData =
  results :: "location list option"

record current =
  temperature_2m :: rat
  relative_humidity_2m :: rat
  weathercode :: int

text \<open>\<open>geocodingData.results?.[0]\<close>: \<open>undefined\<close> when \<open>results\<close> is absent or empty.\<close>

definition firstResult :: "geocodingData \<Rightarrow> location option" where
  "firstResult geocodingData =
     (case results geocodingData of
        None \<Rightarrow> None
      | Some [] \<Rightarrow> None
      | Some (l # _) \<Rightarrow> Some l)"

definition fetchCityWeather ::
  "(string \<Rightarrow> nat \<Rightarrow> fault + geocodingData) \<Rightarrow> (rat \<Rightarrow> rat \<Rightarrow> fault + current) \<Rightarrow>
     string \<Rightarrow> request list \<times> (fault + CityWeather)" where
  "fetchCityWeather geocoding forecast = (\<lambda>city.
      case geocoding city 1 of
        Inl e \<Rightarrow> ([GeocodingRequest city 1], Inl e)
      | Inr geocodingData \<Rightarrow>
         (case firstResult geocodingData of
            None \<Rightarrow>
              ([GeocodingRequest city 1],
               Inr \<lparr>CityWeather.city = city, temperature = 0,
                    condition = ''Location not found'', humidity = 0\<rparr>)
          | Some l \<Rightarrow>
             (case forecast (latitude l) (longitude l) of
                Inl e \<Rightarrow>
                  ([GeocodingRequest city 1, ForecastRequest (latitude l) (longitude l)], Inl e)
              | Inr d \<Rightarrow>
                  ([GeocodingRequest city 1, ForecastRequest (latitude l) (longitude l)],
                   Inr \<lparr>CityWeather.city = name l, temperature = temperature_2m d,
                        condition = getWeatherCondition (weathercode d),
                        humidity = relative_humidity_2m d\<rparr>))))"

text \<open>
  The nested workflow \<open>process-single-city\<close> does not call the step above: it wraps the
  city name into an object and runs a step \<open>fetch-weather-for-city\<close> written out a second
  time, with the same body, on that object.
\<close>

record CityInput =
  city :: string

definition fetchWeatherForCity ::
  "(string \<Rightarrow> nat \<Rightarrow> fault + geocodingData) \<Rightarrow> (rat \<Rightarrow> rat \<Rightarrow> fault + current) \<Rightarrow>
     CityInput \<Rightarrow> request list \<times> (fault + CityWeather)" where
  "fetchWeatherForCity geocoding forecast inputData =
     (let city = CityInput.city inputData
      in case geocoding city 1 of
           Inl e \<Rightarrow> ([GeocodingRequest city 1], Inl e)
         | Inr geocodingData \<Rightarrow>
            (case firstResult geocodingData of
               None \<Rightarrow>
                 ([GeocodingRequest city 1],
                  Inr \<lparr>CityWeather.city = city, temperature = 0,
                       condition = ''Location not found'', humidity = 0\<rparr>)
             | Some l \<Rightarrow>
                (case forecast (latitude l) (longitude l) of
                   Inl e \<Rightarrow>
                     ([GeocodingRequest city 1, ForecastRequest (latitude l) (longitude l)], Inl e)
                 | Inr d \<Rightarrow>
                     ([GeocodingRequest city 1, ForecastRequest (latitude l) (longitude l)],
                      Inr \<lparr>CityWeather.city = name l, temperature = temperature_2m d,
                           condition = getWeatherCondition (weathercode d),
                           humidity = relative_humidity_2m d\<rparr>))))"

section \<open>Activity recommender\<close>

text \<open>The string literals of the step; the leading bytes are the pictograph of each.\<close>

definition beachOrPoolVisit :: string where
  "beachOrPoolVisit =
     [CHR 0xF0, CHR 0x9F, CHR 0x8F, CHR 0x96, CHR 0xEF, CHR 0xB8, CHR 0x8F] @ '' Beach or pool visit''"

definition getIceCream :: string where
  "getIceCream = [CHR 0xF0, CHR 0x9F, CHR 0x8D, CHR 0xA6] @ '' Get ice cream''"

definition cycling :: string where
  "cycling = [CHR 0xF0, CHR 0x9F, CHR 0x9A, CHR 0xB4] @ '' Cycling''"

definition hiking :: string where
  "hiking = [CHR 0xF0, CHR 0x9F, CHR 0xA5, CHR 0xBE] @ '' Hiking''"

definition outdoorPhotography :: string where
  "outdoorPhotography = [CHR 0xF0, CHR 0x9F, CHR 0x93, CHR 0xB8] @ '' Outdoor photography''"

definition cozyCafeVisit :: string where
  "cozyCafeVisit =
     [CHR 0xE2, CHR 0x98, CHR 0x95] @ '' Cozy caf'' @ [CHR 0xC3, CHR 0xA9] @ '' visit''"

definition museumTour :: string where
  "museumTour = [CHR 0xF0, CHR 0x9F, CHR 0x8E, CHR 0xA8] @ '' Museum tour''"

definition winterSports :: string where
  "winterSports =
     [CHR 0xE2, CHR 0x9B, CHR 0xB7, CHR 0xEF, CHR 0xB8, CHR 0x8F] @ '' Winter sports''"

definition indoorActivities :: string where
  "indoorActivities = [CHR 0xF0, CHR 0x9F, CHR 0x8F, CHR 0xA0] @ '' Indoor activities''"

definition movieTheater :: string where
  "movieTheater = [CHR 0xF0, CHR 0x9F, CHR 0x8E, CHR 0xAC] @ '' Movie theater''"

definition libraryVisit :: string where
  "libraryVisit = [CHR 0xF0, CHR 0x9F, CHR 0x93, CHR 0x9A] @ '' Library visit''"

definition bowling :: string where
  "bowling = [CHR 0xF0, CHR 0x9F, CHR 0x8E, CHR 0xB3] @ '' Bowling''"

definition parkPicnic :: string where
  "parkPicnic = [CHR 0xF0, CHR 0x9F, CHR 0x8C, CHR 0xB3] @ '' Park picnic''"

definition sunsetWatching :: string where
  "sunsetWatching = [CHR 0xF0, CHR 0x9F, CHR 0x8C, CHR 0x85] @ '' Sunset watching''"

text \<open>
  The step \<open>generateActivityRecommendations\<close>. The array \<open>activities\<close> is threaded through
  the two \<open>if\<close> chains; \<open>activities.length = 0\<close> empties it. The template literal turns
  \<open>temperature\<close> and \<open>humidity\<close> into strings with the language's number-to-string
  conversion, the parameter \<open>numberToString\<close>.
\<close>

definition generateActivityRecommendations ::
  "(rat \<Rightarrow> string) \<Rightarrow> CityWeather \<Rightarrow> ActivityRecommendation" where
  "generateActivityRecommendations numberToString inputData =
     (let city = CityWeather.city inputData;
          temperature = temperature inputData;
          condition = condition inputData;
          humidity = humidity inputData;
          activities = [];
          activities =
            (if temperature > 25 then activities @ [beachOrPoolVisit, getIceCream]
             else if temperature > 15 then activities @ [cycling, hiking, outdoorPhotography]
             else if temperature > 5 then activities @ [cozyCafeVisit, museumTour]
             else activities @ [winterSports, indoorActivities]);
          activities =
            (if str_includes (toLowerCase condition) ''rain''
             then [] @ [movieTheater, libraryVisit, bowling]
             else if str_includes (toLowerCase condition) ''clear''
                     \<or> str_includes (toLowerCase condition) ''sunny''
             then activities @ [parkPicnic, sunsetWatching]
             else activities);
          weatherSummary =
            numberToString temperature @ [CHR 0xC2, CHR 0xB0] @ ''C, '' @ condition @ '', ''
              @ numberToString humidity @ ''% humidity''
      in \<lparr>ActivityRecommendation.city = city, activities = activities,
           weatherSummary = weatherSummary\<rparr>)"

section \<open>Destination scorer\<close>

subsection \<open>The pattern \<open>/(-?\d+(?:\.\d+)?)/\<close>\<close>

definition isDigit :: "char \<Rightarrow> bool" where
  "isDigit c = (c \<in> set ''0123456789'')"

text \<open>\<open>\d+\<close> at the start of \<open>s\<close>: greedy, at least one digit; the digits and the rest.\<close>

definition matchDigits :: "string \<Rightarrow> (string \<times> string) option" where
  "matchDigits s =
     (if takeWhile isDigit s = [] then None
      else Some (takeWhile isDigit s, dropWhile isDigit s))"

text \<open>\<open>(?:\.\d+)?\<close> at the start of \<open>s\<close>: the group if it matches, else the empty match.\<close>

definition matchFraction :: "string \<Rightarrow> string" where
  "matchFraction s =
     (case s of
        [] \<Rightarrow> []
      | c # r \<Rightarrow>
          if c = CHR ''.'' then (case matchDigits r of Some (ds, _) \<Rightarrow> c # ds | None \<Rightarrow> [])
          else [])"

text \<open>
  \<open>\d+(?:\.\d+)?\<close> at the start of \<open>s\<close>. Nothing follows the optional group in the
  pattern, so the matcher never gives digits back.
\<close>

definition matchUnsigned :: "string \<Rightarrow> string option" where
  "matchUnsigned s =
     (case matchDigits s of
        None \<Rightarrow> None
      | Some (ds, r) \<Rightarrow> Some (ds @ matchFraction r))"

text \<open>
  The whole pattern at the start of \<open>s\<close>: \<open>-?\<close> takes a minus sign when there is one, and
  the matcher backtracks to the empty match when no digit follows it.
\<close>

definition matchAt :: "string \<Rightarrow> string option" where
  "matchAt s =
     (case s of
        [] \<Rightarrow> None
      | c # r \<Rightarrow>
          if c = CHR ''-''
          then (case matchUnsigned r of Some m \<Rightarrow> Some (c # m) | None \<Rightarrow> matchUnsigned s)
          else matchUnsigned s)"

text \<open>
  \<open>s.match(/(-?\d+(?:\.\d+)?)/)\<close>, the text of group 1: the pattern is tried at each
  start position from the left, and the first position where it matches wins; \<open>None\<close> is
  the \<open>null\<close> of no match.
\<close>

fun regexMatch :: "string \<Rightarrow> string option" where
  "regexMatch [] = None"
| "regexMatch (c # s) =
     (case matchAt (c # s) of Some m \<Rightarrow> Some m | None \<Rightarrow> regexMatch s)"

subsection \<open>\<open>parseFloat\<close> on a matched numeral\<close>

definition digitValue :: "char \<Rightarrow> nat" where
  "digitValue c = of_char c - 48"

definition digitsValue :: "string \<Rightarrow> nat" where
  "digitsValue ds = foldl (\<lambda>n c. 10 * n + digitValue c) 0 ds"

definition unsignedValue :: "string \<Rightarrow> rat" where
  "unsignedValue s =
     (let ip = takeWhile isDigit s; r = dropWhile isDigit s
      in of_nat (digitsValue ip) +
         (case r of
            [] \<Rightarrow> 0
          | c # f \<Rightarrow>
              if c = CHR ''.''
              then of_nat (digitsValue (takeWhile isDigit f)) / 10 ^ length (takeWhile isDigit f)
              else 0))"

text \<open>
  The value of a decimal numeral: an optional minus sign, digits, and an optional
  fraction.
\<close>

definition decimalValue :: "string \<Rightarrow> rat" where
  "decimalValue s =
     (case s of
        [] \<Rightarrow> 0
      | c # r \<Rightarrow> if c = CHR ''-'' then - unsignedValue r else unsignedValue s)"

text \<open>
  \<open>parseFloat\<close> is only ever applied to a text the pattern has matched, which is such a
  numeral. Its result is the floating-point number nearest to the numeral's value.
\<close>

definition parseFloat :: "(rat \<Rightarrow> rat) \<Rightarrow> string \<Rightarrow> rat" where
  "parseFloat toDouble s = toDouble (decimalValue s)"

subsection \<open>Scoring and ranking\<close>

text \<open>
  The two lines under \<open>// Parse temperature from summary\<close>: the number of the first
  match, and 20 when the pattern matches nowhere.
\<close>

definition parseTemperature :: "(rat \<Rightarrow> rat) \<Rightarrow> string \<Rightarrow> rat" where
  "parseTemperature toDouble summary =
     (let tempMatch = regexMatch summary
      in case tempMatch of Some m \<Rightarrow> parseFloat toDouble m | None \<Rightarrow> 20)"

text \<open>
  The callback of \<open>cityRecommendations.map\<close>. \<open>rec.activities[0] || 'Explore the city'\<close>
  takes the fallback when the array is empty and when its first entry is the empty string.
\<close>

definition scoreCity :: "(rat \<Rightarrow> rat) \<Rightarrow> ActivityRecommendation \<Rightarrow> ScoredCity" where
  "scoreCity toDouble r =
     (let score = 50;
          temp = parseTemperature toDouble (ActivityRecommendation.weatherSummary r);
          score =
            (if temp \<ge> 18 \<and> temp \<le> 25 then score + 30
             else if temp \<ge> 15 \<and> temp \<le> 28 then score + 20
             else if temp < 5 \<or> temp > 35 then score - 20
             else score);
          score =
            (if str_includes (toLowerCase (ActivityRecommendation.weatherSummary r)) ''clear''
             then score + 20
             else if str_includes (toLowerCase (ActivityRecommendation.weatherSummary r)) ''rain''
             then score - 15
             else if str_includes (toLowerCase (ActivityRecommendation.weatherSummary r)) ''cloud''
             then score + 5
             else score)
      in \<lparr>ScoredCity.city = ActivityRecommendation.city r,
           score = score,
           weatherSummary = ActivityRecommendation.weatherSummary r,
           topActivity =
             (case activities r of
                [] \<Rightarrow> ''Explore the city''
              | a # _ \<Rightarrow> if a = [] then ''Explore the city'' else a)\<rparr>)"

text \<open>
  \<open>Array.prototype.sort\<close> with a comparator: the language requires the sort to be stable,
  and a stable sort has one result, that of stable insertion. \<open>cmp a b \<le> 0\<close> leaves \<open>a\<close>
  before \<open>b\<close>.
\<close>

fun insertBy :: "('a \<Rightarrow> 'a \<Rightarrow> int) \<Rightarrow> 'a \<Rightarrow> 'a list \<Rightarrow> 'a list" where
  "insertBy cmp x [] = [x]"
| "insertBy cmp x (y # ys) = (if cmp x y \<le> 0 then x # y # ys else y # insertBy cmp x ys)"

definition sortBy :: "('a \<Rightarrow> 'a \<Rightarrow> int) \<Rightarrow> 'a list \<Rightarrow> 'a list" where
  "sortBy cmp xs = foldr (insertBy cmp) xs []"

text \<open>
  The step \<open>findBestDestination\<close>. \<open>scoredCities[0]\<close> of an empty array is \<open>undefined\<close>,
  and reading \<open>best.city\<close> from it throws.
\<close>

datatype error = TypeError

definition findBestDestination ::
  "(rat \<Rightarrow> rat) \<Rightarrow> ActivityRecommendation list \<Rightarrow> error + BestDestinationReport" where
  "findBestDestination toDouble cityRecommendations =
     (let scoredCities = map (scoreCity toDouble) cityRecommendations;
          scoredCities = sortBy (\<lambda>a b. score b - score a) scoredCities
      in case scoredCities of
           [] \<Rightarrow> Inl TypeError
         | best # _ \<Rightarrow>
             Inr \<lparr>bestCity = ScoredCity.city best,
                  reason =
                    ScoredCity.city best @ '' has the best weather conditions with ''
                      @ ScoredCity.weatherSummary best @ ''. Top recommended activity: ''
                      @ topActivity best,
                  allCities = scoredCities\<rparr>)"


section \<open>The specification's wording\<close>

text \<open>
  The definitions of this section follow the sentences of the specification, not the
  code; the theorems below compare the two.
\<close>

subsection \<open>The first signed decimal number of a string\<close>

text \<open>An unsigned decimal numeral: digits, then possibly a point and digits.\<close>

definition isUnsignedDecimal :: "string \<Rightarrow> bool" where
  "isUnsignedDecimal s =
     (takeWhile isDigit s \<noteq> [] \<and>
      (case dropWhile isDigit s of
         [] \<Rightarrow> True
       | c # f \<Rightarrow> c = CHR ''.'' \<and> f \<noteq> [] \<and> list_all isDigit f))"

definition isSignedDecimal :: "string \<Rightarrow> bool" where
  "isSignedDecimal s =
     (isUnsignedDecimal s \<or>
      (case s of [] \<Rightarrow> False | c # r \<Rightarrow> c = CHR ''-'' \<and> isUnsignedDecimal r))"

definition longestPrefixWith :: "(string \<Rightarrow> bool) \<Rightarrow> string \<Rightarrow> string option" where
  "longestPrefixWith P s = find P (rev (prefixes s))"

text \<open>
  The first signed decimal number found in a string: the numeral that starts at the
  leftmost position where one starts, taken as long as it goes.
\<close>

fun firstSignedDecimal :: "string \<Rightarrow> string option" where
  "firstSignedDecimal [] = None"
| "firstSignedDecimal (c # s) =
     (case longestPrefixWith isSignedDecimal (c # s) of
        Some m \<Rightarrow> Some m
      | None \<Rightarrow> firstSignedDecimal s)"

subsection \<open>The scoring rules\<close>

definition extractedTemperature :: "(rat \<Rightarrow> rat) \<Rightarrow> string \<Rightarrow> rat" where
  "extractedTemperature toDouble summary =
     (case firstSignedDecimal summary of Some m \<Rightarrow> toDouble (decimalValue m) | None \<Rightarrow> 20)"

definition temperatureAdjustment :: "rat \<Rightarrow> int" where
  "temperatureAdjustment t =
     (if 18 \<le> t \<and> t \<le> 25 then 30
      else if 15 \<le> t \<and> t \<le> 28 then 20
      else if t < 5 \<or> 35 < t then - 20
      else 0)"

definition conditionAdjustment :: "string \<Rightarrow> int" where
  "conditionAdjustment summary =
     (if sublist ''clear'' (toLowerCase summary) then 20
      else if sublist ''rain'' (toLowerCase summary) then - 15
      else if sublist ''cloud'' (toLowerCase summary) then 5
      else 0)"

definition specScore :: "(rat \<Rightarrow> rat) \<Rightarrow> string \<Rightarrow> int" where
  "specScore toDouble summary =
     50 + temperatureAdjustment (extractedTemperature toDouble summary)
        + conditionAdjustment summary"


subsection \<open>The activity sets\<close>

definition hotSet :: "string list" where
  "hotSet = [beachOrPoolVisit, getIceCream]"

definition mildSet :: "string list" where
  "mildSet = [cycling, hiking, outdoorPhotography]"

definition coolSet :: "string list" where
  "coolSet = [cozyCafeVisit, museumTour]"

definition coldSet :: "string list" where
  "coldSet = [winterSports, indoorActivities]"

definition baseActivities :: "rat \<Rightarrow> string list" where
  "baseActivities t =
     (if t > 25 then hotSet
      else if t > 15 then mildSet
      else if t > 5 then coolSet
      else coldSet)"

section \<open>Example inputs\<close>

text \<open>
  To run the model on examples with integer temperatures: the number-to-string
  conversion on the integers, and the rounding on numbers that are floating-point numbers
  already.
\<close>

definition exactDouble :: "rat \<Rightarrow> rat" where
  "exactDouble q = q"

definition digitChar :: "nat \<Rightarrow> char" where
  "digitChar d = ''0123456789'' ! d"

fun natToString :: "nat \<Rightarrow> string" where
  "natToString n =
     (if n < 10 then [digitChar n] else natToString (n div 10) @ [digitChar (n mod 10)])"

declare natToString.simps [simp del]

definition integerToString :: "rat \<Rightarrow> string" where
  "integerToString q =
     (if q < 0 then CHR ''-'' # natToString (nat (- \<lfloor>q\<rfloor>)) else natToString (nat \<lfloor>q\<rfloor>))"

definition exampleTokyo :: CityWeather where
  "exampleTokyo =
     \<lparr>CityWeather.city = ''Tokyo'', temperature = 20,
      condition = getWeatherCondition 65, humidity = 80\<rparr>"

definition exampleParis :: CityWeather where
  "exampleParis =
     \<lparr>CityWeather.city = ''Paris'', temperature = 20,
      condition = getWeatherCondition 0, humidity = 50\<rparr>"

definition exampleRome :: CityWeather where
  "exampleRome =
     \<lparr>CityWeather.city = ''Rome'', temperature = 22,
      condition = getWeatherCondition 1, humidity = 40\<rparr>"

definition exampleOslo :: CityWeather where
  "exampleOslo =
     \<lparr>CityWeather.city = ''Oslo'', temperature = - 3,
      condition = getWeatherCondition 61, humidity = 90\<rparr>"

definition exampleBern :: CityWeather where
  "exampleBern =
     \<lparr>CityWeather.city = ''Bern'', temperature = 10,
      condition = getWeatherCondition 3, humidity = 70\<rparr>"

definition exampleRecommendations :: "ActivityRecommendation list" where
  "exampleRecommendations =
     map (generateActivityRecommendations integerToString)
       [exampleTokyo, exampleParis, exampleRome, exampleOslo]"

section \<open>Auxiliary facts\<close>

subsection \<open>Strings\<close>

lemma str_includes_sublist: "str_includes s k \<longleftrightarrow> sublist k s"
  by (induction s) (auto simp: sublist_Cons_right)

lemma list_all_takeWhile: "list_all P (takeWhile P xs)"
  by (induction xs) simp_all

lemma takeWhile_list_all: "list_all P xs \<Longrightarrow> takeWhile P xs = xs"
  by (simp add: list_all_iff)

lemma dropWhile_list_all: "list_all P xs \<Longrightarrow> dropWhile P xs = []"
  by (simp add: list_all_iff)

lemma not_isDigit_dot [simp]: "\<not> isDigit CHR ''.''"
  by (simp add: isDigit_def)

lemma not_isDigit_minus [simp]: "\<not> isDigit CHR ''-''"
  by (simp add: isDigit_def)

subsection \<open>The longest prefix with a property\<close>

lemma longestPrefixWith_None:
  "longestPrefixWith P s = None \<longleftrightarrow> (\<forall>p. prefix p s \<longrightarrow> \<not> P p)"
  by (auto simp: longestPrefixWith_def find_None_iff)

lemma longestPrefixWith_Some:
  "longestPrefixWith P s = Some m \<Longrightarrow>
     prefix m s \<and> P m \<and> (\<forall>p. prefix p s \<and> P p \<longrightarrow> length p \<le> length m)"
proof (induction s arbitrary: m rule: rev_induct)
  case Nil
  then show ?case by (auto simp: longestPrefixWith_def split: if_splits)
next
  case (snoc x s)
  show ?case
  proof (cases "P (s @ [x])")
    case True
    then have "m = s @ [x]" using snoc.prems by (simp add: longestPrefixWith_def)
    then show ?thesis using True by (auto dest: prefix_length_le)
  next
    case False
    then have "longestPrefixWith P s = Some m"
      using snoc.prems by (simp add: longestPrefixWith_def)
    then have "prefix m s \<and> P m \<and> (\<forall>p. prefix p s \<and> P p \<longrightarrow> length p \<le> length m)"
      by (rule snoc.IH)
    then show ?thesis using False by (auto simp: prefix_snoc)
  qed
qed

lemma longestPrefixWith_eqI:
  assumes "prefix m s" "P m" "\<forall>p. prefix p s \<and> P p \<longrightarrow> length p \<le> length m"
  shows "longestPrefixWith P s = Some m"
proof -
  have "longestPrefixWith P s \<noteq> None"
    using assms by (auto simp: longestPrefixWith_None)
  then obtain m' where m': "longestPrefixWith P s = Some m'" by auto
  from longestPrefixWith_Some [OF m']
  have "prefix m' s" "P m'" "length m \<le> length m'" using assms by auto
  moreover have "length m' \<le> length m" using assms \<open>prefix m' s\<close> \<open>P m'\<close> by auto
  ultimately have "m' = m" using assms(1)
    by (metis le_antisym prefix_length_prefix prefix_order.antisym)
  then show ?thesis using m' by simp
qed

subsection \<open>The pattern against the numerals\<close>

lemma isUnsignedDecimal_iff:
  "isUnsignedDecimal p \<longleftrightarrow>
     (\<exists>ds. ds \<noteq> [] \<and> list_all isDigit ds \<and>
        (p = ds \<or> (\<exists>fs. fs \<noteq> [] \<and> list_all isDigit fs \<and> p = ds @ CHR ''.'' # fs)))"
  (is "?L \<longleftrightarrow> ?R")
proof
  assume L: ?L
  let ?ds = "takeWhile isDigit p"
  have ds1: "?ds \<noteq> []" using L by (simp add: isUnsignedDecimal_def)
  have ds2: "list_all isDigit ?ds" by (rule list_all_takeWhile)
  note ds = ds1 ds2
  have p: "p = ?ds @ dropWhile isDigit p" by simp
  show ?R
  proof (cases "dropWhile isDigit p")
    case Nil
    have "p = ?ds" by (metis Nil takeWhile_dropWhile_id append_Nil2)
    then show ?thesis using ds by metis
  next
    case (Cons c f)
    then have "c = CHR ''.''" "f \<noteq> []" "list_all isDigit f"
      using L by (auto simp: isUnsignedDecimal_def)
    moreover have "p = ?ds @ c # f" using p Cons by simp
    ultimately show ?thesis using ds by metis
  qed
next
  assume ?R
  then obtain ds where ds: "ds \<noteq> []" "list_all isDigit ds"
    and p: "p = ds \<or> (\<exists>fs. fs \<noteq> [] \<and> list_all isDigit fs \<and> p = ds @ CHR ''.'' # fs)"
    by blast
  from p show ?L
  proof
    assume "p = ds"
    then show ?L using ds
      by (simp add: isUnsignedDecimal_def takeWhile_list_all dropWhile_list_all)
  next
    assume "\<exists>fs. fs \<noteq> [] \<and> list_all isDigit fs \<and> p = ds @ CHR ''.'' # fs"
    then obtain fs where "fs \<noteq> []" "list_all isDigit fs" "p = ds @ CHR ''.'' # fs" by blast
    then show ?L using ds
      by (simp add: isUnsignedDecimal_def list_all_iff)
  qed
qed

lemma matchDigits_digits:
  assumes "ds \<noteq> []" "list_all isDigit ds"
  shows "matchDigits (ds @ r) = Some (ds @ takeWhile isDigit r, dropWhile isDigit r)"
  using assms by (simp add: matchDigits_def list_all_iff)

lemma matchUnsigned_integer:
  assumes "ds \<noteq> []" "list_all isDigit ds"
  shows "matchUnsigned (ds @ r) = Some (ds @ takeWhile isDigit r @ matchFraction (dropWhile isDigit r))"
  using assms by (simp add: matchUnsigned_def matchDigits_digits)

lemma matchUnsigned_fraction:
  assumes "ds \<noteq> []" "list_all isDigit ds" "fs \<noteq> []" "list_all isDigit fs"
  shows "matchUnsigned (ds @ CHR ''.'' # fs @ r) = Some (ds @ CHR ''.'' # fs @ takeWhile isDigit r)"
proof -
  have "matchDigits (ds @ CHR ''.'' # fs @ r) = Some (ds, CHR ''.'' # fs @ r)"
    using matchDigits_digits [OF assms(1,2), of "CHR ''.'' # fs @ r"] by simp
  moreover have "matchFraction (CHR ''.'' # fs @ r) = CHR ''.'' # fs @ takeWhile isDigit r"
    using matchDigits_digits [OF assms(3,4), of r] by (simp add: matchFraction_def)
  ultimately show ?thesis by (simp add: matchUnsigned_def)
qed

lemma matchUnsigned_extends:
  assumes "prefix p s" "isUnsignedDecimal p"
  shows "\<exists>m. matchUnsigned s = Some m \<and> prefix p m"
proof -
  from assms(1) obtain r where s: "s = p @ r" by (auto simp: prefix_def)
  from assms(2) obtain ds where ds: "ds \<noteq> []" "list_all isDigit ds"
    and p: "p = ds \<or> (\<exists>fs. fs \<noteq> [] \<and> list_all isDigit fs \<and> p = ds @ CHR ''.'' # fs)"
    unfolding isUnsignedDecimal_iff by blast
  from p show ?thesis
  proof
    assume "p = ds"
    then show ?thesis using matchUnsigned_integer [OF ds, of r] s by auto
  next
    assume "\<exists>fs. fs \<noteq> [] \<and> list_all isDigit fs \<and> p = ds @ CHR ''.'' # fs"
    then obtain fs where fs: "fs \<noteq> []" "list_all isDigit fs" and pf: "p = ds @ CHR ''.'' # fs"
      by blast
    show ?thesis using matchUnsigned_fraction [OF ds fs, of r] s pf by (simp add: prefix_def)
  qed
qed

lemma matchUnsigned_sound:
  assumes "matchUnsigned s = Some m"
  shows "prefix m s \<and> isUnsignedDecimal m"
proof -
  let ?D = "takeWhile isDigit s" and ?R = "dropWhile isDigit s"
  have D: "?D \<noteq> []" and m: "m = ?D @ matchFraction ?R"
    using assms by (auto simp: matchUnsigned_def matchDigits_def split: if_splits)
  have allD: "list_all isDigit ?D" by (rule list_all_takeWhile)
  have s: "s = ?D @ ?R" by simp
  show ?thesis
  proof (cases "matchFraction ?R = []")
    case True
    then have "m = ?D" using m by simp
    then show ?thesis using D allD isUnsignedDecimal_iff takeWhile_is_prefix by metis
  next
    case False
    then obtain R' where R: "?R = CHR ''.'' # R'" and F: "takeWhile isDigit R' \<noteq> []"
      and mf: "matchFraction ?R = CHR ''.'' # takeWhile isDigit R'"
      by (auto simp: matchFraction_def matchDigits_def split: list.splits if_splits)
    have allF: "list_all isDigit (takeWhile isDigit R')"
      by (rule list_all_takeWhile)
    have "s = ?D @ CHR ''.'' # takeWhile isDigit R' @ dropWhile isDigit R'"
      using s R by simp
    then have "prefix m s" using m mf by (metis append_Cons append_assoc prefixI)
    moreover have "isUnsignedDecimal m"
      unfolding isUnsignedDecimal_iff using m mf D allD F allF by blast
    ultimately show ?thesis by simp
  qed
qed

lemma matchUnsigned_minus: "matchUnsigned (CHR ''-'' # r) = None"
  by (simp add: matchUnsigned_def matchDigits_def)

lemma isUnsignedDecimal_minus: "\<not> isUnsignedDecimal (CHR ''-'' # r)"
  by (simp add: isUnsignedDecimal_def)

lemma isUnsignedDecimal_Nil: "\<not> isUnsignedDecimal []"
  by (simp add: isUnsignedDecimal_def)

lemma matchAt_sound:
  assumes "matchAt s = Some m"
  shows "prefix m s \<and> isSignedDecimal m"
proof (cases s)
  case Nil
  then show ?thesis using assms by (simp add: matchAt_def)
next
  case (Cons c r)
  show ?thesis
  proof (cases "c = CHR ''-''")
    case True
    then obtain m' where "matchUnsigned r = Some m'" "m = c # m'"
      using assms Cons by (auto simp: matchAt_def matchUnsigned_minus split: option.splits)
    then show ?thesis using matchUnsigned_sound [of r m'] Cons True
      by (simp add: isSignedDecimal_def)
  next
    case False
    then have "matchUnsigned s = Some m" using assms Cons by (simp add: matchAt_def)
    then show ?thesis using matchUnsigned_sound [of s m] by (simp add: isSignedDecimal_def)
  qed
qed

lemma matchAt_extends:
  assumes "prefix p s" "isSignedDecimal p"
  shows "\<exists>m. matchAt s = Some m \<and> prefix p m"
proof (cases p)
  case Nil
  then show ?thesis using assms(2) by (simp add: isSignedDecimal_def isUnsignedDecimal_Nil)
next
  case (Cons c q)
  then obtain r where s: "s = c # r" and qr: "prefix q r"
    using assms(1) by (auto simp: prefix_def)
  show ?thesis
  proof (cases "c = CHR ''-''")
    case True
    then have "isUnsignedDecimal q"
      using assms(2) Cons by (simp add: isSignedDecimal_def isUnsignedDecimal_minus)
    then obtain m' where "matchUnsigned r = Some m'" "prefix q m'"
      using matchUnsigned_extends [OF qr] by blast
    then show ?thesis using s True Cons by (simp add: matchAt_def)
  next
    case False
    then have "isUnsignedDecimal p" using assms(2) Cons by (simp add: isSignedDecimal_def)
    then obtain m where "matchUnsigned s = Some m" "prefix p m"
      using matchUnsigned_extends [OF assms(1)] by blast
    then show ?thesis using s False by (simp add: matchAt_def)
  qed
qed

lemma matchAt_longestPrefix: "matchAt s = longestPrefixWith isSignedDecimal s"
proof (cases "matchAt s")
  case None
  then have "\<forall>p. prefix p s \<longrightarrow> \<not> isSignedDecimal p"
    using matchAt_extends by fastforce
  then have "longestPrefixWith isSignedDecimal s = None"
    by (simp add: longestPrefixWith_None)
  then show ?thesis using None by simp
next
  case (Some m)
  have "longestPrefixWith isSignedDecimal s = Some m"
  proof (rule longestPrefixWith_eqI)
    show "prefix m s" "isSignedDecimal m" using matchAt_sound [OF Some] by simp_all
    show "\<forall>p. prefix p s \<and> isSignedDecimal p \<longrightarrow> length p \<le> length m"
      using matchAt_extends Some by (fastforce dest: prefix_length_le)
  qed
  then show ?thesis using Some by simp
qed

lemma regexMatch_firstSignedDecimal: "regexMatch s = firstSignedDecimal s"
  by (induction s) (simp_all add: matchAt_longestPrefix split: option.splits)

lemma parseTemperature_extracted:
  "parseTemperature toDouble s = extractedTemperature toDouble s"
  by (simp add: parseTemperature_def extractedTemperature_def parseFloat_def
      regexMatch_firstSignedDecimal split: option.splits)




lemma matchUnsigned_no_digit: "\<forall>c \<in> set s. \<not> isDigit c \<Longrightarrow> matchUnsigned s = None"
  by (cases s) (simp_all add: matchUnsigned_def matchDigits_def)

lemma matchAt_no_digit: "\<forall>c \<in> set s. \<not> isDigit c \<Longrightarrow> matchAt s = None"
  using matchUnsigned_no_digit [of s] matchUnsigned_no_digit [of "tl s"]
  by (cases s) (auto simp: matchAt_def matchUnsigned_minus)

lemma regexMatch_no_digit: "\<forall>c \<in> set s. \<not> isDigit c \<Longrightarrow> regexMatch s = None"
  by (induction s) (simp_all add: matchAt_no_digit)

subsection \<open>The sort\<close>

lemma insertBy_insort_key:
  "insertBy (\<lambda>a b. score b - score a) x ys = insort_key (\<lambda>c. - score c) x ys"
  by (induction ys) auto

lemma sortBy_sort_key:
  "sortBy (\<lambda>a b. score b - score a) xs = sort_key (\<lambda>c. - score c) xs"
  by (induction xs) (auto simp: sortBy_def insertBy_insort_key)

lemma hd_sort_key_first_min:
  fixes f :: "'a \<Rightarrow> int"
  assumes "xs \<noteq> []"
  shows "\<exists>i < length xs. hd (sort_key f xs) = xs ! i
           \<and> (\<forall>j < length xs. f (xs ! i) \<le> f (xs ! j))
           \<and> (\<forall>j < i. f (xs ! j) \<noteq> f (xs ! i))"
proof -
  let ?ys = "sort_key f xs"
  have ne: "?ys \<noteq> []" using assms by (metis length_sort length_0_conv)
  then obtain b bs where ys: "?ys = b # bs" by (cases ?ys) auto
  have srt: "sorted (map f ?ys)" by (rule sorted_sort_key)
  have minb: "\<forall>y \<in> set xs. f b \<le> f y"
  proof
    fix y assume "y \<in> set xs"
    then have "y \<in> set ?ys" by simp
    then show "f b \<le> f y" using srt ys by auto
  qed
  have "filter (\<lambda>y. f y = f b) xs = filter (\<lambda>y. f y = f b) ?ys"
    by (rule sort_key_stable [symmetric])
  also have "\<dots> = b # filter (\<lambda>y. f y = f b) bs" using ys by simp
  finally obtain us vs where dec: "xs = us @ b # vs" and us: "\<forall>u \<in> set us. f u \<noteq> f b"
    by (auto simp: filter_eq_Cons_iff)
  have "length us < length xs" using dec by simp
  moreover have "hd ?ys = xs ! length us" using dec ys by simp
  moreover have "\<forall>j < length xs. f (xs ! length us) \<le> f (xs ! j)"
    using minb dec by (metis nth_append_length nth_mem)
  moreover have "\<forall>j < length us. f (xs ! j) \<noteq> f (xs ! length us)"
    using us dec by (simp add: nth_append)
  ultimately show ?thesis by blast
qed

subsection \<open>The scorer, rule by rule\<close>

lemma score_scoreCity:
  "score (scoreCity toDouble r) = specScore toDouble (ActivityRecommendation.weatherSummary r)"
  by (simp add: scoreCity_def specScore_def temperatureAdjustment_def conditionAdjustment_def
      parseTemperature_extracted str_includes_sublist Let_def)

lemma city_scoreCity: "ScoredCity.city (scoreCity toDouble r) = ActivityRecommendation.city r"
  by (simp add: scoreCity_def Let_def)

lemma findBestDestination_Inr:
  assumes "findBestDestination toDouble recs = Inr rep"
  shows "allCities rep = sort_key (\<lambda>c. - score c) (map (scoreCity toDouble) recs)"
    and "bestCity rep = ScoredCity.city (hd (allCities rep))"
    and "recs \<noteq> []"
  using assms
  by (auto simp: findBestDestination_def Let_def sortBy_sort_key sortBy_def split: list.splits)

lemma findBestDestination_nonempty:
  assumes "recs \<noteq> []"
  shows "\<exists>rep. findBestDestination toDouble recs = Inr rep"
proof -
  have "length (sortBy (\<lambda>a b. score b - score a) (map (scoreCity toDouble) recs))
          = length recs"
    by (simp add: sortBy_sort_key)
  then have "sortBy (\<lambda>a b. score b - score a) (map (scoreCity toDouble) recs) \<noteq> []"
    using assms by auto
  then show ?thesis
    by (auto simp: findBestDestination_def Let_def split: list.splits)
qed


subsection \<open>The examples, evaluated\<close>

lemma example_nonempty: "exampleRecommendations \<noteq> []"
  by (simp add: exampleRecommendations_def)

lemma example_scores:
  "map (\<lambda>r. (ActivityRecommendation.city r,
              specScore exactDouble (ActivityRecommendation.weatherSummary r)))
     exampleRecommendations
   = [(''Tokyo'', 65), (''Paris'', 100), (''Rome'', 100), (''Oslo'', 15)]"
  by code_simp

lemma conditionAdjustment_clear_sky: "conditionAdjustment ''Clear sky'' = 20"
  by code_simp

lemma example_ranking:
  "(case findBestDestination exactDouble exampleRecommendations of
      Inl e \<Rightarrow> False
    | Inr rep \<Rightarrow>
        bestCity rep = ''Paris'' \<and>
        map (\<lambda>c. (ScoredCity.city c, score c)) (allCities rep)
          = [(''Paris'', 100), (''Rome'', 100), (''Tokyo'', 65), (''Oslo'', 15)])"
  by code_simp

lemma example_extremes:
  "score (scoreCity exactDouble (generateActivityRecommendations integerToString exampleOslo))
     = 15 \<and>
   score (scoreCity exactDouble (generateActivityRecommendations integerToString exampleParis))
     = 100"
  by code_simp

lemma example_conditions:
  "str_includes (toLowerCase (condition exampleTokyo)) ''rain'' \<and>
   \<not> str_includes (toLowerCase (condition exampleParis)) ''rain'' \<and>
   str_includes (toLowerCase (condition exampleParis)) ''clear'' \<and>
   \<not> str_includes (toLowerCase (condition exampleBern)) ''rain''"
  by code_simp


text \<open>
  The integer rendering writes a signed decimal numeral that parses back to the integer:
  the two conditions under which the summary is read back exactly hold for every integer
  temperature.
\<close>

lemma digitChar_digit:
  assumes "d < 10"
  shows "isDigit (digitChar d) \<and> digitValue (digitChar d) = d"
proof -
  have "d \<in> {0, 1, 2, 3, 4, 5, 6, 7, 8, 9}" using assms by auto
  then show ?thesis
    by (auto simp: digitChar_def isDigit_def digitValue_def)
qed

lemma digitsValue_snoc: "digitsValue (ds @ [c]) = 10 * digitsValue ds + digitValue c"
  by (simp add: digitsValue_def)

lemma natToString_digits:
  "natToString n \<noteq> [] \<and> list_all isDigit (natToString n) \<and> digitsValue (natToString n) = n"
proof (induction n rule: natToString.induct)
  case (1 n)
  show ?case
  proof (cases "n < 10")
    case True
    then show ?thesis
      using digitChar_digit [of n] by (simp add: natToString.simps [of n] digitsValue_def)
  next
    case False
    then have ih: "natToString (n div 10) \<noteq> []" "list_all isDigit (natToString (n div 10))"
      "digitsValue (natToString (n div 10)) = n div 10"
      using "1.IH" by simp_all
    have d: "isDigit (digitChar (n mod 10))" "digitValue (digitChar (n mod 10)) = n mod 10"
      using digitChar_digit [of "n mod 10"] by simp_all
    show ?thesis
      using False ih d by (simp add: natToString.simps [of n] digitsValue_snoc)
  qed
qed

lemma unsignedValue_digits:
  assumes "list_all isDigit ds"
  shows "unsignedValue ds = of_nat (digitsValue ds)"
  using assms by (simp add: unsignedValue_def takeWhile_list_all dropWhile_list_all)

lemma integerToString_plain_decimal:
  "isSignedDecimal (integerToString (of_int n)) \<and>
   parseFloat exactDouble (integerToString (of_int n)) = of_int n"
proof (cases "n < 0")
  case True
  let ?ds = "natToString (nat (- n))"
  have s: "integerToString (of_int n) = CHR ''-'' # ?ds"
    using True by (simp add: integerToString_def)
  have ds: "?ds \<noteq> []" "list_all isDigit ?ds" "digitsValue ?ds = nat (- n)"
    using natToString_digits [of "nat (- n)"] by simp_all
  have "isUnsignedDecimal ?ds" unfolding isUnsignedDecimal_iff using ds by blast
  then have "isSignedDecimal (CHR ''-'' # ?ds)" by (simp add: isSignedDecimal_def)
  moreover have "decimalValue (CHR ''-'' # ?ds) = of_int n"
    using True ds by (simp add: decimalValue_def unsignedValue_digits)
  ultimately show ?thesis by (simp add: s parseFloat_def exactDouble_def)
next
  case False
  let ?ds = "natToString (nat n)"
  have s: "integerToString (of_int n) = ?ds"
    using False by (simp add: integerToString_def)
  have ds: "?ds \<noteq> []" "list_all isDigit ?ds" "digitsValue ?ds = nat n"
    using natToString_digits [of "nat n"] by simp_all
  have u: "isUnsignedDecimal ?ds" unfolding isUnsignedDecimal_iff using ds by blast
  then have "isSignedDecimal ?ds" by (simp add: isSignedDecimal_def)
  moreover have "hd ?ds \<noteq> CHR ''-''"
    using ds(1,2) by (cases ?ds) auto
  then have "decimalValue ?ds = unsignedValue ?ds"
    using ds(1) by (cases ?ds) (auto simp: decimalValue_def)
  then have "decimalValue ?ds = of_int n"
    using False ds by (simp add: unsignedValue_digits)
  ultimately show ?thesis by (simp add: s parseFloat_def exactDouble_def)
qed

section \<open>The condition decoder on and off its table\<close>

text \<open>
  Claim C3. Each of the eleven codes of the table (0, 1, 2, 3, 45, 51, 61, 63, 65, 71, 95)
  decodes to its own label, and every other integer code decodes to \<open>Unknown\<close>.
\<close>

theorem getWeatherCondition_table:
  "getWeatherCondition 0 = ''Clear sky'' \<and>
   getWeatherCondition 1 = ''Mainly clear'' \<and>
   getWeatherCondition 2 = ''Partly cloudy'' \<and>
   getWeatherCondition 3 = ''Overcast'' \<and>
   getWeatherCondition 45 = ''Foggy'' \<and>
   getWeatherCondition 51 = ''Light drizzle'' \<and>
   getWeatherCondition 61 = ''Slight rain'' \<and>
   getWeatherCondition 63 = ''Moderate rain'' \<and>
   getWeatherCondition 65 = ''Heavy rain'' \<and>
   getWeatherCondition 71 = ''Slight snow'' \<and>
   getWeatherCondition 95 = ''Thunderstorm'' \<and>
   (\<forall>code. code \<notin> {0, 1, 2, 3, 45, 51, 61, 63, 65, 71, 95}
      \<longrightarrow> getWeatherCondition code = ''Unknown'')"
  by (simp add: getWeatherCondition_def conditions_def)

theorem getWeatherCondition_table_witness:
  "(4::int) \<notin> {0, 1, 2, 3, 45, 51, 61, 63, 65, 71, 95} \<and>
   getWeatherCondition 4 = ''Unknown'' \<and> getWeatherCondition 65 = ''Heavy rain''"
  using getWeatherCondition_table by simp

section \<open>A city the geocoder does not know\<close>

text \<open>
  Claim C7. When the geocoding lookup answers without a first result (the \<open>results\<close>
  field is absent or empty), the weather-fetch step returns normally, with the record
  that carries the name it was given, temperature 0, humidity 0 and the condition
  \<open>Location not found\<close>, and the only request it has sent is the geocoding one: the
  forecast service is not called. The step as declared and its copy inside the
  per-city workflow behave alike.
\<close>

theorem fetch_location_not_found:
  assumes "geocoding c 1 = Inr g" and "results g = None \<or> results g = Some []"
  shows "fetchCityWeather geocoding forecast c
           = ([GeocodingRequest c 1],
              Inr \<lparr>CityWeather.city = c, temperature = 0,
                   condition = ''Location not found'', humidity = 0\<rparr>) \<and>
         fetchWeatherForCity geocoding forecast \<lparr>CityInput.city = c\<rparr>
           = ([GeocodingRequest c 1],
              Inr \<lparr>CityWeather.city = c, temperature = 0,
                   condition = ''Location not found'', humidity = 0\<rparr>)"
  using assms
  by (auto simp: fetchCityWeather_def fetchWeatherForCity_def firstResult_def Let_def)

theorem fetch_location_not_found_witness:
  "fetchCityWeather (\<lambda>n k. Inr \<lparr>results = Some []\<rparr>) (\<lambda>lat lon. Inl TransportFault) ''Atlantis''
     = ([GeocodingRequest ''Atlantis'' 1],
        Inr \<lparr>CityWeather.city = ''Atlantis'', temperature = 0,
             condition = ''Location not found'', humidity = 0\<rparr>) \<and>
   fetchWeatherForCity (\<lambda>n k. Inr \<lparr>results = None\<rparr>) (\<lambda>lat lon. Inl TransportFault)
       \<lparr>CityInput.city = ''Atlantis''\<rparr>
     = ([GeocodingRequest ''Atlantis'' 1],
        Inr \<lparr>CityWeather.city = ''Atlantis'', temperature = 0,
             condition = ''Location not found'', humidity = 0\<rparr>)"
  using fetch_location_not_found
      [of "\<lambda>n k. Inr \<lparr>results = Some []\<rparr>" "''Atlantis''" "\<lparr>results = Some []\<rparr>"
          "\<lambda>lat lon. Inl TransportFault"]
    fetch_location_not_found
      [of "\<lambda>n k. Inr \<lparr>results = None\<rparr>" "''Atlantis''" "\<lparr>results = None\<rparr>"
          "\<lambda>lat lon. Inl TransportFault"]
  by simp

section \<open>Activity recommender\<close>

text \<open>
  Claim C4. Whatever the temperature, a condition that contains \<open>rain\<close> in any
  letter case gives exactly the three activities movie theater, library visit and
  bowling; a condition without \<open>rain\<close> that contains \<open>clear\<close> or \<open>sunny\<close> gives the
  activities of the temperature bracket followed by park picnic and sunset watching.
\<close>

theorem rain_override_and_clear_append:
  "(str_includes (toLowerCase (condition w)) ''rain'' \<longrightarrow>
      activities (generateActivityRecommendations numberToString w)
        = [movieTheater, libraryVisit, bowling]) \<and>
   (\<not> str_includes (toLowerCase (condition w)) ''rain'' \<and>
    (str_includes (toLowerCase (condition w)) ''clear''
       \<or> str_includes (toLowerCase (condition w)) ''sunny'') \<longrightarrow>
      activities (generateActivityRecommendations numberToString w)
        = baseActivities (temperature w) @ [parkPicnic, sunsetWatching])"
  by (simp add: generateActivityRecommendations_def baseActivities_def Let_def
      hotSet_def mildSet_def coolSet_def coldSet_def)

theorem rain_override_and_clear_append_witness:
  "str_includes (toLowerCase (condition exampleTokyo)) ''rain'' \<and>
   activities (generateActivityRecommendations integerToString exampleTokyo)
     = [movieTheater, libraryVisit, bowling] \<and>
   \<not> str_includes (toLowerCase (condition exampleParis)) ''rain'' \<and>
   str_includes (toLowerCase (condition exampleParis)) ''clear'' \<and>
   activities (generateActivityRecommendations integerToString exampleParis)
     = [cycling, hiking, outdoorPhotography, parkPicnic, sunsetWatching]"
proof -
  have t: "temperature exampleParis = 20" by (simp add: exampleParis_def)
  show ?thesis
    using rain_override_and_clear_append [of exampleTokyo integerToString]
      rain_override_and_clear_append [of exampleParis integerToString]
      example_conditions t
    by (simp add: baseActivities_def mildSet_def)
qed

text \<open>
  Claim C5. When the condition does not contain \<open>rain\<close>, the activities begin with the
  set of the temperature bracket, the brackets being read from the hottest down: above
  25 the hot-weather set (beach or pool, ice cream); above 15 and at most 25 the mild
  set (cycling, hiking, photography); above 5 and at most 15 the cool set (cafe,
  museum); at most 5 the cold set (winter sports, indoor activities). What follows the
  set is nothing, or the pair park picnic, sunset watching.
\<close>

theorem base_set_by_temperature_bracket:
  assumes "\<not> str_includes (toLowerCase (condition w)) ''rain''"
  shows "\<exists>extra. (extra = [] \<or> extra = [parkPicnic, sunsetWatching]) \<and>
     (25 < temperature w \<longrightarrow>
        activities (generateActivityRecommendations numberToString w) = hotSet @ extra) \<and>
     (15 < temperature w \<and> temperature w \<le> 25 \<longrightarrow>
        activities (generateActivityRecommendations numberToString w) = mildSet @ extra) \<and>
     (5 < temperature w \<and> temperature w \<le> 15 \<longrightarrow>
        activities (generateActivityRecommendations numberToString w) = coolSet @ extra) \<and>
     (temperature w \<le> 5 \<longrightarrow>
        activities (generateActivityRecommendations numberToString w) = coldSet @ extra)"
proof (cases "str_includes (toLowerCase (condition w)) ''clear''
                \<or> str_includes (toLowerCase (condition w)) ''sunny''")
  case True
  then show ?thesis using assms
    by (intro exI [of _ "[parkPicnic, sunsetWatching]"])
      (simp add: generateActivityRecommendations_def Let_def
        hotSet_def mildSet_def coolSet_def coldSet_def)
next
  case False
  then show ?thesis using assms
    by (intro exI [of _ "[]"])
      (simp add: generateActivityRecommendations_def Let_def
        hotSet_def mildSet_def coolSet_def coldSet_def)
qed

theorem base_set_by_temperature_bracket_witness:
  "\<not> str_includes (toLowerCase (condition exampleBern)) ''rain'' \<and>
   5 < temperature exampleBern \<and> temperature exampleBern \<le> 15 \<and>
   (\<exists>extra. (extra = [] \<or> extra = [parkPicnic, sunsetWatching]) \<and>
      activities (generateActivityRecommendations integerToString exampleBern)
        = [cozyCafeVisit, museumTour] @ extra)"
proof -
  have t: "temperature exampleBern = 10" by (simp add: exampleBern_def)
  have c: "\<not> str_includes (toLowerCase (condition exampleBern)) ''rain''"
    using example_conditions by simp
  show ?thesis
    using base_set_by_temperature_bracket [OF c, of integerToString] c t
    by (simp add: coolSet_def)
qed

section \<open>Destination scorer: the score of a city\<close>

text \<open>
  Claim C1. The score the scorer gives a record is 50, plus the temperature adjustment
  (30 for a temperature from 18 to 25, else 20 for one from 15 to 28, else \<open>-20\<close> for one
  below 5 or above 35, else 0), plus the keyword adjustment on the lower-cased summary
  (20 for \<open>clear\<close>, else \<open>-15\<close> for \<open>rain\<close>, else 5 for \<open>cloud\<close>, else 0). The temperature
  is the number of the first signed decimal numeral in the summary, and 20 when the
  summary holds no digit. For every input sequence the scorer accepts, the cities of the
  report carry exactly these scores.
\<close>

theorem scoreCity_formula:
  "score (scoreCity toDouble r)
     = 50 + temperatureAdjustment
              (extractedTemperature toDouble (ActivityRecommendation.weatherSummary r))
          + conditionAdjustment (ActivityRecommendation.weatherSummary r) \<and>
   ((\<forall>c \<in> set (ActivityRecommendation.weatherSummary r). \<not> isDigit c)
      \<longrightarrow> extractedTemperature toDouble (ActivityRecommendation.weatherSummary r) = 20) \<and>
   (findBestDestination toDouble recs = Inr rep \<longrightarrow>
      mset (map (\<lambda>c. (ScoredCity.city c, score c)) (allCities rep))
        = mset (map (\<lambda>r. (ActivityRecommendation.city r,
                            specScore toDouble (ActivityRecommendation.weatherSummary r))) recs))"
proof (intro conjI impI)
  show "score (scoreCity toDouble r)
     = 50 + temperatureAdjustment
              (extractedTemperature toDouble (ActivityRecommendation.weatherSummary r))
          + conditionAdjustment (ActivityRecommendation.weatherSummary r)"
    using score_scoreCity [of toDouble r] by (simp add: specScore_def)
next
  assume nd: "\<forall>c \<in> set (ActivityRecommendation.weatherSummary r). \<not> isDigit c"
  then show "extractedTemperature toDouble (ActivityRecommendation.weatherSummary r) = 20"
    using regexMatch_no_digit [of "ActivityRecommendation.weatherSummary r"]
    by (simp add: extractedTemperature_def regexMatch_firstSignedDecimal [symmetric])
next
  assume a: "findBestDestination toDouble recs = Inr rep"
  have "mset (allCities rep) = mset (map (scoreCity toDouble) recs)"
    using findBestDestination_Inr(1) [OF a] by simp
  then have "mset (map (\<lambda>c. (ScoredCity.city c, score c)) (allCities rep))
      = mset (map (\<lambda>c. (ScoredCity.city c, score c)) (map (scoreCity toDouble) recs))"
    by (metis mset_map)
  then show "mset (map (\<lambda>c. (ScoredCity.city c, score c)) (allCities rep))
        = mset (map (\<lambda>r. (ActivityRecommendation.city r,
                            specScore toDouble (ActivityRecommendation.weatherSummary r))) recs)"
    by (simp add: score_scoreCity city_scoreCity comp_def)
qed

theorem scoreCity_formula_witness:
  "\<not> list_ex isDigit ''Clear sky'' \<and>
   extractedTemperature exactDouble ''Clear sky'' = 20 \<and>
   score (scoreCity exactDouble
            \<lparr>ActivityRecommendation.city = ''Nowhere'', activities = [],
             weatherSummary = ''Clear sky''\<rparr>) = 100 \<and>
   (\<exists>rep. findBestDestination exactDouble exampleRecommendations = Inr rep \<and>
      mset (map (\<lambda>c. (ScoredCity.city c, score c)) (allCities rep))
        = mset [(''Tokyo'', 65), (''Paris'', 100), (''Rome'', 100), (''Oslo'', 15)])"
proof -
  obtain rep where rep: "findBestDestination exactDouble exampleRecommendations = Inr rep"
    using findBestDestination_nonempty [OF example_nonempty] by blast
  have nd: "\<forall>c \<in> set ''Clear sky''. \<not> isDigit c"
    by (simp add: isDigit_def)
  show ?thesis
    using scoreCity_formula
      [of exactDouble
          "\<lparr>ActivityRecommendation.city = ''Nowhere'', activities = [],
            weatherSummary = ''Clear sky''\<rparr>" exampleRecommendations rep]
      rep nd example_scores conditionAdjustment_clear_sky
    by (simp add: temperatureAdjustment_def isDigit_def)
qed

text \<open>
  Claim C9. The score of every record lies between 15 and 100, both included: it is 50
  plus a temperature adjustment among 30, 20, \<open>-20\<close>, 0 plus a condition adjustment
  among 20, \<open>-15\<close>, 5, 0. 15 is the score of a freezing rainy city and 100 that of a mild
  clear one, so both ends are reached.
\<close>

theorem score_range:
  "15 \<le> score (scoreCity toDouble r) \<and> score (scoreCity toDouble r) \<le> 100 \<and>
   (\<exists>ta ca. ta \<in> {30, 20, - 20, 0} \<and> ca \<in> {20, - 15, 5, 0} \<and>
      score (scoreCity toDouble r) = 50 + ta + ca) \<and>
   score (scoreCity exactDouble (generateActivityRecommendations integerToString exampleOslo))
     = 15 \<and>
   score (scoreCity exactDouble (generateActivityRecommendations integerToString exampleParis))
     = 100"
proof -
  have "15 \<le> score (scoreCity toDouble r) \<and> score (scoreCity toDouble r) \<le> 100"
    by (simp add: scoreCity_def Let_def)
  moreover have "temperatureAdjustment t \<in> {30, 20, - 20, 0}" for t
    by (simp add: temperatureAdjustment_def)
  moreover have "conditionAdjustment s \<in> {20, - 15, 5, 0}" for s
    by (simp add: conditionAdjustment_def)
  ultimately show ?thesis
    using score_scoreCity [of toDouble r] example_extremes unfolding specScore_def by blast
qed

section \<open>Destination scorer: the ranking\<close>

text \<open>
  Claim C2. For a non-empty input sequence the scorer returns a report. Its \<open>allCities\<close>
  has as many entries as the input, holds the scored input records, is sorted by score
  from the highest down, and keeps records of equal score in their input order. Its
  \<open>bestCity\<close> is the city of the first entry, which is the city of the earliest input
  record among those of maximal score.
\<close>

theorem findBestDestination_ranking:
  assumes "recs \<noteq> []"
  shows "\<exists>rep. findBestDestination toDouble recs = Inr rep
     \<and> length (allCities rep) = length recs
     \<and> mset (allCities rep) = mset (map (scoreCity toDouble) recs)
     \<and> sorted_wrt (\<lambda>a b. score a \<ge> score b) (allCities rep)
     \<and> (\<forall>k. filter (\<lambda>c. score c = k) (allCities rep)
              = filter (\<lambda>c. score c = k) (map (scoreCity toDouble) recs))
     \<and> bestCity rep = ScoredCity.city (hd (allCities rep))
     \<and> (\<exists>i < length recs.
            bestCity rep = ActivityRecommendation.city (recs ! i)
          \<and> (\<forall>j < length recs.
                score (scoreCity toDouble (recs ! j)) \<le> score (scoreCity toDouble (recs ! i)))
          \<and> (\<forall>j < i.
                score (scoreCity toDouble (recs ! j)) < score (scoreCity toDouble (recs ! i))))"
proof -
  obtain rep where rep: "findBestDestination toDouble recs = Inr rep"
    using findBestDestination_nonempty [OF assms] by blast
  let ?f = "\<lambda>c. - score c"
  let ?xs = "map (scoreCity toDouble) recs"
  have all: "allCities rep = sort_key ?f ?xs"
    and best: "bestCity rep = ScoredCity.city (hd (allCities rep))"
    using findBestDestination_Inr [OF rep] by simp_all
  have len: "length (allCities rep) = length recs" using all by simp
  have perm: "mset (allCities rep) = mset ?xs" using all by simp
  have "sorted (map ?f (allCities rep))" unfolding all by (rule sorted_sort_key)
  then have srt: "sorted_wrt (\<lambda>a b. score a \<ge> score b) (allCities rep)"
    by (simp add: sorted_map)
  have stable: "filter (\<lambda>c. score c = k) (allCities rep) = filter (\<lambda>c. score c = k) ?xs" for k
    using sort_key_stable [of ?f "- k" ?xs] all by simp
  have "?xs \<noteq> []" using assms by simp
  from hd_sort_key_first_min [OF this, of ?f]
  obtain i where i: "i < length recs" and hd: "hd (sort_key ?f ?xs) = ?xs ! i"
    and mx: "\<forall>j < length recs. ?f (?xs ! i) \<le> ?f (?xs ! j)"
    and fst: "\<forall>j < i. ?f (?xs ! j) \<noteq> ?f (?xs ! i)"
    by auto
  have b: "bestCity rep = ActivityRecommendation.city (recs ! i)"
    using best all hd i by (simp add: city_scoreCity)
  have m1: "\<forall>j < length recs.
      score (scoreCity toDouble (recs ! j)) \<le> score (scoreCity toDouble (recs ! i))"
    using mx i by simp
  have m2: "\<forall>j < i.
      score (scoreCity toDouble (recs ! j)) < score (scoreCity toDouble (recs ! i))"
  proof (intro allI impI)
    fix j assume j: "j < i"
    then have "j < length recs" using i by simp
    then have "score (scoreCity toDouble (recs ! j)) \<le> score (scoreCity toDouble (recs ! i))"
      using m1 by simp
    moreover have "score (scoreCity toDouble (recs ! j)) \<noteq> score (scoreCity toDouble (recs ! i))"
      using fst j i by simp
    ultimately show
      "score (scoreCity toDouble (recs ! j)) < score (scoreCity toDouble (recs ! i))"
      by simp
  qed
  show ?thesis using rep len perm srt stable best b m1 m2 i by blast
qed

theorem findBestDestination_ranking_witness:
  "exampleRecommendations \<noteq> [] \<and>
   (\<exists>rep. findBestDestination exactDouble exampleRecommendations = Inr rep
      \<and> length (allCities rep) = 4
      \<and> sorted_wrt (\<lambda>a b. score a \<ge> score b) (allCities rep)
      \<and> bestCity rep = ''Paris''
      \<and> map (\<lambda>c. (ScoredCity.city c, score c)) (allCities rep)
          = [(''Paris'', 100), (''Rome'', 100), (''Tokyo'', 65), (''Oslo'', 15)])"
proof -
  have len: "length exampleRecommendations = 4" by (simp add: exampleRecommendations_def)
  show ?thesis
    using findBestDestination_ranking [OF example_nonempty, of exactDouble]
      example_ranking example_nonempty len
    by auto
qed

text \<open>
  Claim C6. On the empty sequence the scorer does not return a report: it fails, reading
  a field of the first element of an empty array.
\<close>

theorem findBestDestination_empty:
  "findBestDestination toDouble [] = Inl TypeError"
  by (simp add: findBestDestination_def sortBy_def)

section \<open>Reading the temperature back from the summary\<close>



end
